theory Spec2Isabelle
  imports Complex_Main
begin

section \<open>Scene graph owner (static/js/three/scene.js, class SceneManager)\<close>

text \<open>
  JavaScript numbers are modelled as reals; colours that the code reads and writes through
  \<^verbatim>\<open>getHex\<close>/\<^verbatim>\<open>setHex\<close> are modelled by their hex value, a natural number.
  Meshes are JavaScript objects shared by reference between \<^verbatim>\<open>this.objects\<close>,
  \<^verbatim>\<open>this.selectedObject\<close> and the scene, so the model keeps them in a store indexed by
  reference; a reference that was never allocated holds a placeholder that is never read.
\<close>

type_synonym ref = nat

type_synonym vec3 = "real \<times> real \<times> real"

datatype color = ColorStr string | ColorHex nat

datatype geometry =
    BoxGeometry real real real
  | SphereGeometry real nat nat
  | SphereGeometrySeg real nat nat real real real real
  | CylinderGeometry real real real nat
  | ConeGeometry real real nat
  | TorusGeometry real real nat nat

record material =
  m_color :: color
  m_transparent :: bool
  m_opacity :: real
  m_roughness :: real
  m_metalness :: real
  m_emissive :: nat

record user_data =
  ud_id :: nat
  ud_isPhysical :: bool
  ud_isPhantom :: bool
  ud_isTemporary :: bool

record mesh =
  mesh_geometry :: geometry
  mesh_material :: material
  mesh_position :: vec3
  mesh_rotation :: vec3
  mesh_scale :: vec3
  castShadow :: bool
  receiveShadow :: bool
  userData :: user_data
  currentHex :: "nat option"

datatype dom_event = ObjectSelected ref | ObjectDeselected

record scene_manager =
  heap :: "ref \<Rightarrow> mesh"
  next_ref :: ref
  scene_children :: "ref list"
  objects :: "ref list"
  selectedObject :: "ref option"
  edit_disabled :: bool
  delete_disabled :: bool
  dispatched :: "dom_event list"

definition blank_mesh :: mesh where
  "blank_mesh =
     \<lparr> mesh_geometry = BoxGeometry 1 1 1,
       mesh_material = \<lparr> m_color = ColorHex 0xffffff, m_transparent = False, m_opacity = 1,
                         m_roughness = 1, m_metalness = 0, m_emissive = 0 \<rparr>,
       mesh_position = (0, 0, 0), mesh_rotation = (0, 0, 0), mesh_scale = (1, 1, 1),
       castShadow = False, receiveShadow = False,
       userData = \<lparr> ud_id = 0, ud_isPhysical = False, ud_isPhantom = False,
                     ud_isTemporary = False \<rparr>,
       currentHex = None \<rparr>"

text \<open>The constructor: no pickable objects, nothing selected. The two buttons start
  disabled in the page's markup.\<close>

definition new_scene_manager :: scene_manager where
  "new_scene_manager =
     \<lparr> heap = (\<lambda>_. blank_mesh), next_ref = 0, scene_children = [], objects = [],
       selectedObject = None, edit_disabled = True, delete_disabled = True,
       dispatched = [] \<rparr>"

definition emissive_getHex :: "scene_manager \<Rightarrow> ref \<Rightarrow> nat" where
  "emissive_getHex s r = m_emissive (mesh_material (heap s r))"

definition emissive_setHex :: "ref \<Rightarrow> nat \<Rightarrow> scene_manager \<Rightarrow> scene_manager" where
  "emissive_setHex r h s =
     s\<lparr>heap := (heap s)(r := (heap s r)\<lparr>mesh_material :=
          (mesh_material (heap s r))\<lparr>m_emissive := h\<rparr>\<rparr>)\<rparr>"

text \<open>\<^verbatim>\<open>setHex(undefined)\<close> floors its argument to NaN, whose bit shifts are 0.\<close>

definition hex_or_undefined :: "nat option \<Rightarrow> nat" where
  "hex_or_undefined h = (case h of None \<Rightarrow> 0 | Some v \<Rightarrow> v)"

definition restore_highlight :: "ref \<Rightarrow> scene_manager \<Rightarrow> scene_manager" where
  "restore_highlight p s = emissive_setHex p (hex_or_undefined (currentHex (heap s p))) s"

definition set_currentHex :: "ref \<Rightarrow> nat \<Rightarrow> scene_manager \<Rightarrow> scene_manager" where
  "set_currentHex r h s = s\<lparr>heap := (heap s)(r := (heap s r)\<lparr>currentHex := Some h\<rparr>)\<rparr>"

definition selectObject :: "ref \<Rightarrow> scene_manager \<Rightarrow> scene_manager" where
  "selectObject object s =
     (let s1 = (case selectedObject s of
                  Some p \<Rightarrow> restore_highlight p s
                | None \<Rightarrow> s);
          s2 = s1\<lparr>selectedObject := Some object\<rparr>;
          s3 = set_currentHex object (emissive_getHex s2 object) s2;
          s4 = emissive_setHex object 0x333333 s3
      in s4\<lparr>edit_disabled := False, delete_disabled := False,
            dispatched := dispatched s4 @ [ObjectSelected object]\<rparr>)"

definition deselectObject :: "scene_manager \<Rightarrow> scene_manager" where
  "deselectObject s =
     (case selectedObject s of
        Some p \<Rightarrow>
          (let s1 = restore_highlight p s
           in s1\<lparr>selectedObject := None, edit_disabled := True, delete_disabled := True,
                 dispatched := dispatched s1 @ [ObjectDeselected]\<rparr>)
      | None \<Rightarrow> s)"

text \<open>\<^verbatim>\<open>Array.indexOf\<close> followed by \<^verbatim>\<open>splice(index, 1)\<close>.\<close>

fun indexOf :: "'a list \<Rightarrow> 'a \<Rightarrow> nat option" where
  "indexOf [] x = None"
| "indexOf (y # ys) x =
     (if y = x then Some 0 else (case indexOf ys x of None \<Rightarrow> None | Some i \<Rightarrow> Some (Suc i)))"

definition splice1 :: "nat \<Rightarrow> 'a list \<Rightarrow> 'a list" where
  "splice1 i xs = take i xs @ drop (Suc i) xs"

text \<open>\<^verbatim>\<open>scene.add\<close> detaches the object from its parent, if it has one, and appends
  it; \<^verbatim>\<open>scene.remove\<close> takes it out of the children if it is there. Only the children that
  come through \<^verbatim>\<open>addObject\<close> are tracked here.\<close>

definition scene_add :: "ref \<Rightarrow> ref list \<Rightarrow> ref list" where
  "scene_add r cs = remove1 r cs @ [r]"

definition scene_remove :: "ref \<Rightarrow> ref list \<Rightarrow> ref list" where
  "scene_remove r cs = (case indexOf cs r of None \<Rightarrow> cs | Some i \<Rightarrow> splice1 i cs)"

definition addObject :: "ref \<Rightarrow> scene_manager \<Rightarrow> scene_manager" where
  "addObject object s =
     s\<lparr>scene_children := scene_add object (scene_children s),
       objects := objects s @ [object]\<rparr>"

definition removeObject :: "ref \<Rightarrow> scene_manager \<Rightarrow> scene_manager" where
  "removeObject object s =
     (let s1 = (case indexOf (objects s) object of
                  Some index \<Rightarrow> s\<lparr>objects := splice1 index (objects s)\<rparr>
                | None \<Rightarrow> s);
          s2 = s1\<lparr>scene_children := scene_remove object (scene_children s1)\<rparr>
      in if selectedObject s2 = Some object
         then s2\<lparr>selectedObject := None, edit_disabled := True, delete_disabled := True\<rparr>
         else s2)"

text \<open>\<^verbatim>\<open>onMouseDown\<close>: the raycaster is asked for the intersections with
  \<^verbatim>\<open>this.objects\<close>, nearest first; its answer is given as the positions of the hit meshes in
  that list.\<close>

definition intersectObjects :: "nat list \<Rightarrow> ref list \<Rightarrow> ref list" where
  "intersectObjects hits objs = map (\<lambda>i. objs ! i) (filter (\<lambda>i. i < length objs) hits)"

definition onMouseDown :: "nat list \<Rightarrow> scene_manager \<Rightarrow> scene_manager" where
  "onMouseDown hits s =
     (case intersectObjects hits (objects s) of
        r # _ \<Rightarrow> selectObject r s
      | [] \<Rightarrow> deselectObject s)"

section \<open>World object registry (static/js/three/object.js, class ObjectManager)\<close>

record object_data =
  od_id :: nat
  od_type :: string
  od_position :: vec3
  od_rotation :: vec3
  od_scale :: vec3
  od_color :: string
  od_transparency :: real
  od_isPhysical :: bool
  od_isPhantom :: bool
  od_isTemporary :: bool

text \<open>The values of the build panel's controls at the moment a button is clicked. One of
  the radio buttons is checked in the page's markup, so a type is always there.\<close>

record build_form =
  f_type :: string
  f_size :: real
  f_color :: string
  f_transparency :: real
  f_physical :: bool
  f_phantom :: bool
  f_temporary :: bool

record inventory_item =
  item_type :: string
  item_name :: string

type_synonym log_entry = "string \<times> string"

record world =
  sceneManager :: scene_manager
  om_objects :: "object_data list"
  nextObjectId :: nat
  system_log :: "log_entry list"

definition new_world :: world where
  "new_world = \<lparr> sceneManager = new_scene_manager, om_objects = [], nextObjectId = 1,
                  system_log = [] \<rparr>"

text \<open>Number to string, as a template literal and \<^verbatim>\<open>toString(16)\<close> print a
  non-negative integer.\<close>

definition digit_char :: "nat \<Rightarrow> char" where
  "digit_char d = (if d < 16 then ''0123456789abcdef'' ! d else CHR ''?'')"

function digits :: "nat \<Rightarrow> nat \<Rightarrow> string" where
  "digits b n =
     (if b < 2 \<or> n < b then [digit_char n] else digits b (n div b) @ [digit_char (n mod b)])"
  by pat_completeness auto
termination
  by (relation "measure snd") auto

definition addLogEntry :: "string \<Rightarrow> string \<Rightarrow> world \<Rightarrow> world" where
  "addLogEntry message level w = w\<lparr>system_log := system_log w @ [(message, level)]\<rparr>"

definition createObject :: "object_data \<Rightarrow> scene_manager \<Rightarrow> ref \<times> scene_manager" where
  "createObject objectData s =
     (let geometry =
            (if od_type objectData = ''box'' then BoxGeometry 1 1 1
             else if od_type objectData = ''sphere'' then SphereGeometry 0.5 32 32
             else if od_type objectData = ''cylinder'' then CylinderGeometry 0.5 0.5 1 32
             else if od_type objectData = ''prism'' then ConeGeometry 0.5 1 4
             else if od_type objectData = ''torus'' then TorusGeometry 0.5 0.2 16 32
             else BoxGeometry 1 1 1);
          material =
            \<lparr> m_color = ColorStr (od_color objectData),
              m_transparent = (od_transparency objectData > 0),
              m_opacity = 1 - od_transparency objectData,
              m_roughness = 0.7, m_metalness = 0.3, m_emissive = 0 \<rparr>;
          object = next_ref s;
          m = \<lparr> mesh_geometry = geometry, mesh_material = material,
                mesh_position = od_position objectData,
                mesh_rotation = od_rotation objectData,
                mesh_scale = od_scale objectData,
                castShadow = True, receiveShadow = True,
                userData = \<lparr> ud_id = od_id objectData,
                              ud_isPhysical = od_isPhysical objectData,
                              ud_isPhantom = od_isPhantom objectData,
                              ud_isTemporary = od_isTemporary objectData \<rparr>,
                currentHex = None \<rparr>;
          s1 = s\<lparr>heap := (heap s)(object := m), next_ref := Suc object\<rparr>
      in (object, addObject object s1))"

definition createObjectFromUI :: "build_form \<Rightarrow> world \<Rightarrow> world" where
  "createObjectFromUI f w =
     (let type = f_type f; size = f_size f;
          objectData =
            \<lparr> od_id = nextObjectId w, od_type = type,
              od_position = (0, size / 2, 0), od_rotation = (0, 0, 0),
              od_scale = (size, size, size), od_color = f_color f,
              od_transparency = f_transparency f,
              od_isPhysical = f_physical f, od_isPhantom = f_phantom f,
              od_isTemporary = f_temporary f \<rparr>;
          w1 = w\<lparr>nextObjectId := nextObjectId w + 1\<rparr>;
          (object, s) = createObject objectData (sceneManager w1);
          w2 = w1\<lparr>sceneManager := s\<rparr>;
          w3 = w2\<lparr>om_objects := om_objects w2 @ [objectData]\<rparr>
      in addLogEntry (''Created '' @ type @ '' object with ID: '' @ digits 10 (od_id objectData))
           ''info'' w3)"

text \<open>\<^verbatim>\<open>Array.findIndex\<close>.\<close>

fun findIndex :: "('a \<Rightarrow> bool) \<Rightarrow> 'a list \<Rightarrow> nat option" where
  "findIndex P [] = None"
| "findIndex P (y # ys) =
     (if P y then Some 0 else (case findIndex P ys of None \<Rightarrow> None | Some i \<Rightarrow> Some (Suc i)))"

definition edit_mesh :: "build_form \<Rightarrow> mesh \<Rightarrow> mesh" where
  "edit_mesh f m =
     m\<lparr>mesh_scale := (f_size f, f_size f, f_size f),
       mesh_material := (mesh_material m)\<lparr>m_color := ColorStr (f_color f),
                            m_transparent := (f_transparency f > 0),
                            m_opacity := 1 - f_transparency f\<rparr>,
       userData := (userData m)\<lparr>ud_isPhysical := f_physical f,
                       ud_isPhantom := f_phantom f, ud_isTemporary := f_temporary f\<rparr>\<rparr>"

definition edit_data :: "build_form \<Rightarrow> object_data \<Rightarrow> object_data" where
  "edit_data f d =
     d\<lparr>od_scale := (f_size f, f_size f, f_size f), od_color := f_color f,
       od_transparency := f_transparency f, od_isPhysical := f_physical f,
       od_isPhantom := f_phantom f, od_isTemporary := f_temporary f\<rparr>"

definition editSelectedObject :: "build_form \<Rightarrow> world \<Rightarrow> world" where
  "editSelectedObject f w =
     (case selectedObject (sceneManager w) of
        None \<Rightarrow> w
      | Some object \<Rightarrow>
          (let s = sceneManager w;
               objectId = ud_id (userData (heap s object))
           in case findIndex (\<lambda>d. od_id d = objectId) (om_objects w) of
                None \<Rightarrow> w
              | Some objectDataIndex \<Rightarrow>
                  (let s1 = s\<lparr>heap := (heap s)(object := edit_mesh f (heap s object))\<rparr>;
                       w1 = w\<lparr>sceneManager := s1\<rparr>;
                       w2 = w1\<lparr>om_objects := (om_objects w1)[objectDataIndex :=
                                edit_data f (om_objects w1 ! objectDataIndex)]\<rparr>
                   in addLogEntry (''Updated object with ID: '' @ digits 10 objectId)
                        ''info'' w2)))"

definition deleteSelectedObject :: "world \<Rightarrow> world" where
  "deleteSelectedObject w =
     (case selectedObject (sceneManager w) of
        None \<Rightarrow> w
      | Some object \<Rightarrow>
          (let objectId = ud_id (userData (heap (sceneManager w) object));
               w1 = w\<lparr>sceneManager := removeObject object (sceneManager w)\<rparr>;
               w2 = (case findIndex (\<lambda>d. od_id d = objectId) (om_objects w1) of
                       Some objectIndex \<Rightarrow>
                         w1\<lparr>om_objects := splice1 objectIndex (om_objects w1)\<rparr>
                     | None \<Rightarrow> w1)
           in addLogEntry (''Deleted object with ID: '' @ digits 10 objectId) ''info'' w2))"

definition getTypeFromItem :: "inventory_item \<Rightarrow> string" where
  "getTypeFromItem inventoryItem =
     (if item_type inventoryItem = ''mesh'' then ''mesh''
      else if item_type inventoryItem = ''texture'' then ''box''
      else if item_type inventoryItem = ''object'' then ''box''
      else ''box'')"

text \<open>\<open>rnd\<close> is the integer \<^verbatim>\<open>Math.floor(Math.random() * 16777215)\<close> drawn for the
  placeholder colour.\<close>

definition loadObjectFromInventory :: "inventory_item \<Rightarrow> nat \<Rightarrow> world \<Rightarrow> world" where
  "loadObjectFromInventory inventoryItem rnd w =
     (let objectData =
            \<lparr> od_id = nextObjectId w, od_type = getTypeFromItem inventoryItem,
              od_position = (0, 1, 0), od_rotation = (0, 0, 0),
              od_scale = (1, 1, 1), od_color = ''#'' @ digits 16 rnd,
              od_transparency = 0,
              od_isPhysical = False, od_isPhantom = False, od_isTemporary = False \<rparr>;
          w1 = w\<lparr>nextObjectId := nextObjectId w + 1\<rparr>;
          (object, s) = createObject objectData (sceneManager w1);
          w2 = w1\<lparr>sceneManager := s\<rparr>;
          w3 = w2\<lparr>om_objects := om_objects w2 @ [objectData]\<rparr>
      in addLogEntry (''Created object from inventory item: '' @ item_name inventoryItem)
           ''info'' w3)"

text \<open>The operations a user can trigger on the registry and the scene, and a session as a
  sequence of them from the freshly constructed managers.\<close>

datatype ui_op =
    CreateObjectFromUI build_form
  | LoadObjectFromInventory inventory_item nat
  | EditSelectedObject build_form
  | DeleteSelectedObject
  | MouseDown "nat list"

fun apply_op :: "ui_op \<Rightarrow> world \<Rightarrow> world" where
  "apply_op (CreateObjectFromUI f) w = createObjectFromUI f w"
| "apply_op (LoadObjectFromInventory item rnd) w = loadObjectFromInventory item rnd w"
| "apply_op (EditSelectedObject f) w = editSelectedObject f w"
| "apply_op DeleteSelectedObject w = deleteSelectedObject w"
| "apply_op (MouseDown hits) w = w\<lparr>sceneManager := onMouseDown hits (sceneManager w)\<rparr>"

definition run_ops :: "ui_op list \<Rightarrow> world \<Rightarrow> world" where
  "run_ops ops w = fold apply_op ops w"

text \<open>A scene node and a registry record describe the same object.\<close>

definition node_matches :: "mesh \<Rightarrow> object_data \<Rightarrow> bool" where
  "node_matches m d \<longleftrightarrow>
     ud_id (userData m) = od_id d \<and>
     mesh_position m = od_position d \<and>
     mesh_rotation m = od_rotation d \<and>
     mesh_scale m = od_scale d \<and>
     m_color (mesh_material m) = ColorStr (od_color d) \<and>
     m_transparent (mesh_material m) = (od_transparency d > 0) \<and>
     m_opacity (mesh_material m) = 1 - od_transparency d \<and>
     ud_isPhysical (userData m) = od_isPhysical d \<and>
     ud_isPhantom (userData m) = od_isPhantom d \<and>
     ud_isTemporary (userData m) = od_isTemporary d"

text \<open>The record/node correspondence: the pickable nodes and the records pair off in
  order, each pair describing the same id, no node and no id occurring twice, and the
  scene holding exactly the pickable nodes.\<close>

definition registry_matches_scene :: "world \<Rightarrow> bool" where
  "registry_matches_scene w \<longleftrightarrow>
     list_all2 (\<lambda>r d. node_matches (heap (sceneManager w) r) d)
       (objects (sceneManager w)) (om_objects w) \<and>
     distinct (objects (sceneManager w)) \<and>
     distinct (map od_id (om_objects w)) \<and>
     scene_children (sceneManager w) = objects (sceneManager w)"



section \<open>Procedural avatar (static/js/three/scene.js, class AvatarManager)\<close>

record avatar_manager =
  avatarHeight :: real
  bodyShape :: string
  skinColor :: string
  hairStyle :: string
  hairColor :: string
  outfitStyle :: string
  outfitPrimaryColor :: string
  outfitSecondaryColor :: string

text \<open>The parts of the avatar group. A standard material is given by its colour,
  metalness and roughness (0 and 1 when the constructor is not given them), a basic
  material by its colour. A new mesh sits at the origin with no rotation.\<close>

datatype part_material = MeshStandardMaterial color real real | MeshBasicMaterial color

record part =
  part_geometry :: geometry
  part_material :: part_material
  part_position :: vec3
  part_rotation :: vec3
  part_castShadow :: bool

definition new_part :: "geometry \<Rightarrow> part_material \<Rightarrow> part" where
  "new_part g m = \<lparr> part_geometry = g, part_material = m, part_position = (0, 0, 0),
                     part_rotation = (0, 0, 0), part_castShadow = False \<rparr>"

definition set_y :: "real \<Rightarrow> vec3 \<Rightarrow> vec3" where
  "set_y v p = (case p of (x, y, z) \<Rightarrow> (x, v, z))"

definition set_z :: "real \<Rightarrow> vec3 \<Rightarrow> vec3" where
  "set_z v p = (case p of (x, y, z) \<Rightarrow> (x, y, v))"

definition set_x :: "real \<Rightarrow> vec3 \<Rightarrow> vec3" where
  "set_x v p = (case p of (x, y, z) \<Rightarrow> (v, y, z))"

definition new_avatar_manager :: avatar_manager where
  "new_avatar_manager =
     \<lparr> avatarHeight = 1.0, bodyShape = ''athletic'', skinColor = ''#f2d2bd'',
       hairStyle = ''short'', hairColor = ''#523b22'', outfitStyle = ''casual'',
       outfitPrimaryColor = ''#3f51b5'', outfitSecondaryColor = ''#f44336'' \<rparr>"

definition createHead :: "avatar_manager \<Rightarrow> part list" where
  "createHead a =
     (let headGeometry = SphereGeometry 0.25 32 32;
          headMaterial = MeshStandardMaterial (ColorStr (skinColor a)) 0 1;
          head = (new_part headGeometry headMaterial)
                   \<lparr>part_position := set_y (1.6 * avatarHeight a) (0, 0, 0),
                     part_castShadow := True\<rparr>;
          hairGeometry =
            (if hairStyle a = ''short''
               then SphereGeometrySeg 0.27 32 32 0 (pi * 2) 0 (pi / 2)
             else if hairStyle a = ''ponytail'' then CylinderGeometry 0.05 0.1 0.4 16
             else if hairStyle a = ''long'' then CylinderGeometry 0.25 0.15 0.6 16
             else SphereGeometrySeg 0.27 32 32 0 (pi * 2) 0 (pi / 2));
          hairMaterial = MeshStandardMaterial (ColorStr (hairColor a)) 0 1;
          hair0 = new_part hairGeometry hairMaterial;
          hair1 =
            (if hairStyle a = ''short''
               then hair0\<lparr>part_position :=
                            set_y (1.6 * avatarHeight a + 0.03) (part_position hair0),
                          part_rotation := set_x pi (part_rotation hair0)\<rparr>
             else if hairStyle a = ''ponytail''
               then hair0\<lparr>part_position :=
                            set_z (- 0.2) (set_y (1.6 * avatarHeight a + 0.05)
                              (part_position hair0))\<rparr>
             else if hairStyle a = ''long''
               then hair0\<lparr>part_position :=
                            set_y (1.45 * avatarHeight a) (part_position hair0)\<rparr>
             else hair0);
          hair = hair1\<lparr>part_castShadow := True\<rparr>;
          eyeGeometry = SphereGeometry 0.05 16 16;
          eyeMaterial = MeshBasicMaterial (ColorHex 0x444444);
          leftEye = (new_part eyeGeometry eyeMaterial)
                      \<lparr>part_position := (- 0.1, 1.63 * avatarHeight a, 0.2)\<rparr>;
          rightEye = (new_part eyeGeometry eyeMaterial)
                       \<lparr>part_position := (0.1, 1.63 * avatarHeight a, 0.2)\<rparr>;
          mouthGeometry = BoxGeometry 0.1 0.03 0.03;
          mouthMaterial = MeshBasicMaterial (ColorHex 0xcc6666);
          mouth = (new_part mouthGeometry mouthMaterial)
                    \<lparr>part_position := (0, 1.53 * avatarHeight a, 0.22)\<rparr>
      in [head, hair, leftEye, rightEye, mouth])"

definition createTorso :: "avatar_manager \<Rightarrow> part list" where
  "createTorso a =
     (let (width, depth) =
            (if bodyShape a = ''athletic'' then (0.5, 0.25)
             else if bodyShape a = ''slim'' then (0.4, 0.2)
             else if bodyShape a = ''heavy'' then (0.6, 0.35)
             else (0.5, 0.25));
          torsoGeometry = BoxGeometry width (0.6 * avatarHeight a) depth;
          torsoMaterial =
            (if outfitStyle a = ''casual''
               then MeshStandardMaterial (ColorStr (outfitPrimaryColor a)) 0 1
             else if outfitStyle a = ''formal''
               then MeshStandardMaterial (ColorStr (outfitPrimaryColor a)) 0.3 0.7
             else if outfitStyle a = ''fantasy''
               then MeshStandardMaterial (ColorStr (outfitPrimaryColor a)) 0.5 0.5
             else MeshStandardMaterial (ColorStr (outfitPrimaryColor a)) 0 1);
          torso = (new_part torsoGeometry torsoMaterial)
                    \<lparr>part_position := set_y (1.2 * avatarHeight a) (0, 0, 0),
                      part_castShadow := True\<rparr>
      in [torso])"

definition createArms :: "avatar_manager \<Rightarrow> part list" where
  "createArms a =
     (let thickness =
            (if bodyShape a = ''athletic'' then 0.12
             else if bodyShape a = ''slim'' then 0.1
             else if bodyShape a = ''heavy'' then 0.15
             else 0.12);
          armMaterial = MeshStandardMaterial (ColorStr (outfitSecondaryColor a)) 0 1;
          leftArmGeometry = BoxGeometry thickness (0.6 * avatarHeight a) thickness;
          leftArm = (new_part leftArmGeometry armMaterial)
                      \<lparr>part_position := (- 0.3 - thickness / 2, 1.2 * avatarHeight a, 0),
                        part_castShadow := True\<rparr>;
          rightArmGeometry = BoxGeometry thickness (0.6 * avatarHeight a) thickness;
          rightArm = (new_part rightArmGeometry armMaterial)
                       \<lparr>part_position := (0.3 + thickness / 2, 1.2 * avatarHeight a, 0),
                         part_castShadow := True\<rparr>;
          handGeometry = SphereGeometry (thickness * 0.8) 16 16;
          handMaterial = MeshStandardMaterial (ColorStr (skinColor a)) 0 1;
          leftHand = (new_part handGeometry handMaterial)
                       \<lparr>part_position := (- 0.3 - thickness / 2, 0.9 * avatarHeight a, 0),
                         part_castShadow := True\<rparr>;
          rightHand = (new_part handGeometry handMaterial)
                        \<lparr>part_position := (0.3 + thickness / 2, 0.9 * avatarHeight a, 0),
                          part_castShadow := True\<rparr>
      in [leftArm, rightArm, leftHand, rightHand])"

definition createLegs :: "avatar_manager \<Rightarrow> part list" where
  "createLegs a =
     (let thickness =
            (if bodyShape a = ''athletic'' then 0.15
             else if bodyShape a = ''slim'' then 0.12
             else if bodyShape a = ''heavy'' then 0.18
             else 0.15);
          legMaterial = MeshStandardMaterial (ColorStr (outfitSecondaryColor a)) 0 1;
          leftLegGeometry = BoxGeometry thickness (0.9 * avatarHeight a) thickness;
          leftLeg = (new_part leftLegGeometry legMaterial)
                      \<lparr>part_position := (- 0.15, 0.45 * avatarHeight a, 0),
                        part_castShadow := True\<rparr>;
          rightLegGeometry = BoxGeometry thickness (0.9 * avatarHeight a) thickness;
          rightLeg = (new_part rightLegGeometry legMaterial)
                       \<lparr>part_position := (0.15, 0.45 * avatarHeight a, 0),
                         part_castShadow := True\<rparr>;
          shoeGeometry = BoxGeometry (thickness * 1.2) (thickness * 0.5) (thickness * 1.5);
          shoeMaterial = MeshStandardMaterial (ColorHex 0x222222) 0 1;
          leftShoe = (new_part shoeGeometry shoeMaterial)
                       \<lparr>part_position := (- 0.15, thickness * 0.25, thickness * 0.25),
                         part_castShadow := True\<rparr>;
          rightShoe = (new_part shoeGeometry shoeMaterial)
                        \<lparr>part_position := (0.15, thickness * 0.25, thickness * 0.25),
                          part_castShadow := True\<rparr>
      in [leftLeg, rightLeg, leftShoe, rightShoe])"

text \<open>\<^verbatim>\<open>createAvatar\<close>: the children of the new group, in the order they are added.\<close>

definition createAvatar :: "avatar_manager \<Rightarrow> part list" where
  "createAvatar a = createHead a @ createTorso a @ createArms a @ createLegs a"

section \<open>Status, region display and polling (static/js/main.js)\<close>

text \<open>
  The page elements that \<^verbatim>\<open>main.js\<close> writes are the fields of a record. An exception
  that escapes an event handler ends that handler and is reported by the browser; the
  model appends it to \<open>uncaught\<close> and keeps what the handler had written up to there.
  The conversion of a number to a string, as a template literal and \<^verbatim>\<open>join\<close> perform it,
  is the parameter \<open>num\<close> of the functions that print numbers.
\<close>

datatype js_error = TypeError | InvalidCharacterError

datatype request = GetState | GetEvents

record page =
  statusIndicator_classes :: "string list"
  statusIndicator_text :: string
  loginStatus_text :: string
  userName_text :: string
  userId_text :: string
  regionName_text :: string
  regionPosition_text :: string
  avatar_left :: string
  avatar_bottom :: string
  avatarMarker_left :: string
  avatarMarker_top :: string
  systemLog :: "log_entry list"
  startButton_disabled :: bool
  startButton_text :: string
  pollInterval :: bool
  requests :: "request list"
  uncaught :: "js_error list"

definition blank_page :: page where
  "blank_page =
     \<lparr> statusIndicator_classes = [], statusIndicator_text = [], loginStatus_text = [],
       userName_text = [], userId_text = [], regionName_text = [],
       regionPosition_text = [], avatar_left = [], avatar_bottom = [],
       avatarMarker_left = [], avatarMarker_top = [], systemLog = [],
       startButton_disabled = False, startButton_text = [], pollInterval = False,
       requests = [], uncaught = [] \<rparr>"

text \<open>\<^verbatim>\<open>classList.add\<close> refuses a token that contains ASCII whitespace.\<close>

definition ascii_whitespace :: "char \<Rightarrow> bool" where
  "ascii_whitespace c \<longleftrightarrow> (of_char c :: nat) \<in> {9, 10, 12, 13, 32}"

definition updateStatus :: "string \<Rightarrow> page \<Rightarrow> page" where
  "updateStatus status p =
     (let p1 = p\<lparr>statusIndicator_classes := []\<rparr>
      in if list_ex ascii_whitespace status
         then p1\<lparr>uncaught := uncaught p1 @ [InvalidCharacterError]\<rparr>
         else
           (let p2 = p1\<lparr>statusIndicator_classes := [''status-'' @ status]\<rparr>
            in p2\<lparr>statusIndicator_text :=
                 (if status = ''idle'' then ''Idle''
                  else if status = ''starting'' then ''Starting...''
                  else if status = ''initializing'' then ''Initializing...''
                  else if status = ''logging_in'' then ''Logging in...''
                  else if status = ''logged_in'' then ''Logged in''
                  else if status = ''in_world'' then ''In World''
                  else if status = ''logging_out'' then ''Logging out...''
                  else if status = ''completed'' then ''Completed''
                  else if status = ''error'' then ''Error''
                  else if status = ''running_simulation_1'' then ''Running (1/3)''
                  else if status = ''running_simulation_2'' then ''Running (2/3)''
                  else if status = ''running_simulation_3'' then ''Running (3/3)''
                  else status)\<rparr>))"

text \<open>A value that may be missing from a payload is an option; \<^verbatim>\<open>region || '...'\<close>
  and \<^verbatim>\<open>if (data.current_region)\<close> also treat the empty string as missing.\<close>

definition truthy_string :: "string option \<Rightarrow> bool" where
  "truthy_string v = (case v of None \<Rightarrow> False | Some t \<Rightarrow> t \<noteq> [])"

definition string_or :: "string option \<Rightarrow> string \<Rightarrow> string" where
  "string_or v d = (case v of None \<Rightarrow> d | Some t \<Rightarrow> if t = [] then d else t)"

definition updateRegionInfo ::
  "(real \<Rightarrow> string) \<Rightarrow> string option \<Rightarrow> real list option \<Rightarrow> page \<Rightarrow> page" where
  "updateRegionInfo num region position p =
     (let p1 = p\<lparr>regionName_text := string_or region ''Not connected''\<rparr>
      in case position of
           Some [x, y, z] \<Rightarrow>
             p1\<lparr>regionPosition_text :=
                  ''Position: '' @ num x @ '', '' @ num y @ '', '' @ num z\<rparr>
         | _ \<Rightarrow> p1\<lparr>regionPosition_text := ''Position: 0, 0, 0''\<rparr>)"

definition page_addLogEntry :: "string \<Rightarrow> string \<Rightarrow> page \<Rightarrow> page" where
  "page_addLogEntry message level p = p\<lparr>systemLog := systemLog p @ [(message, level)]\<rparr>"

text \<open>Reading an element past the end of an array gives \<^verbatim>\<open>undefined\<close>, and arithmetic
  on it gives NaN.\<close>

datatype jsnum = Num real | NaN

definition elem :: "real list \<Rightarrow> nat \<Rightarrow> jsnum" where
  "elem xs i = (if i < length xs then Num (xs ! i) else NaN)"

definition calc :: "(real \<Rightarrow> real) \<Rightarrow> jsnum \<Rightarrow> jsnum" where
  "calc f v = (case v of Num a \<Rightarrow> Num (f a) | NaN \<Rightarrow> NaN)"

definition show_num :: "(real \<Rightarrow> string) \<Rightarrow> jsnum \<Rightarrow> string" where
  "show_num num v = (case v of Num a \<Rightarrow> num a | NaN \<Rightarrow> ''NaN'')"

fun join :: "string \<Rightarrow> string list \<Rightarrow> string" where
  "join sep [] = []"
| "join sep [x] = x"
| "join sep (x # y # ys) = x @ sep @ join sep (y # ys)"

record teleport_data =
  t_region :: "string option"
  t_position :: "real list option"

text \<open>The handler of the pushed \<^verbatim>\<open>teleport\<close> event.\<close>

definition on_teleport :: "(real \<Rightarrow> string) \<Rightarrow> teleport_data \<Rightarrow> page \<Rightarrow> page" where
  "on_teleport num data p =
     (let p1 = updateRegionInfo num (t_region data) (t_position data) p
      in case t_position data of
           None \<Rightarrow> p1\<lparr>uncaught := uncaught p1 @ [TypeError]\<rparr>
         | Some position \<Rightarrow>
             (let x = calc (\<lambda>v. v / 256 * 100) (elem position 0);
                  y = calc (\<lambda>v. 100 - v / 256 * 100) (elem position 1);
                  p2 = p1\<lparr>avatar_left := show_num num x @ ''%''\<rparr>;
                  p3 = p2\<lparr>avatar_bottom :=
                         show_num num (calc (\<lambda>v. 40 + v / 100 * 10) (elem position 2))
                           @ ''%''\<rparr>;
                  p4 = p3\<lparr>avatarMarker_left := show_num num x @ ''%''\<rparr>;
                  p5 = p4\<lparr>avatarMarker_top := show_num num y @ ''%''\<rparr>
              in page_addLogEntry
                   (''Teleported to ''
                      @ (case t_region data of None \<Rightarrow> ''undefined'' | Some r \<Rightarrow> r)
                      @ '' at position '' @ join '', '' (map num position))
                   ''info'' p5))"

record user_info =
  user_name :: string
  user_id :: string

record snapshot =
  s_status :: string
  s_logged_in :: bool
  s_user :: "user_info option"
  s_current_region :: "string option"
  s_position :: "real list option"

definition terminal_status :: "string \<Rightarrow> bool" where
  "terminal_status status \<longleftrightarrow> status = ''completed'' \<or> status = ''error''"

text \<open>The handler of a \<^verbatim>\<open>/api/state\<close> response inside \<^verbatim>\<open>pollEvents\<close>;
  \<^verbatim>\<open>clearInterval\<close> switches the timer off.\<close>

definition on_state :: "(real \<Rightarrow> string) \<Rightarrow> snapshot \<Rightarrow> page \<Rightarrow> page" where
  "on_state num data p =
     (let p1 = (if s_status data = ''completed'' \<or> s_status data = ''error''
                then p\<lparr>pollInterval := False, startButton_disabled := False,
                       startButton_text := ''Restart Simulation''\<rparr>
                else p);
          p2 = (case (s_logged_in data, s_user data) of
                  (True, Some user) \<Rightarrow>
                    p1\<lparr>loginStatus_text := ''Logged in'',
                       userName_text := ''Name: '' @ user_name user,
                       userId_text := ''ID: '' @ user_id user\<rparr>
                | _ \<Rightarrow>
                    p1\<lparr>loginStatus_text :=
                         (if s_status data = ''completed'' then ''Logged out''
                          else ''Not logged in''),
                       userName_text := [], userId_text := []\<rparr>)
      in if truthy_string (s_current_region data)
         then updateRegionInfo num (s_current_region data) (s_position data) p2
         else p2)"

datatype server_event =
    LogEvent string string
  | ChatEvent
  | TeleportEvent
  | LoginEvent
  | LogoutEvent
  | OtherEvent

definition toLowerCase :: "string \<Rightarrow> string" where
  "toLowerCase t =
     map (\<lambda>c. if 65 \<le> (of_char c :: nat) \<and> (of_char c :: nat) \<le> 90
              then char_of ((of_char c :: nat) + 32) else c) t"

fun processEvent :: "server_event \<Rightarrow> page \<Rightarrow> page" where
  "processEvent (LogEvent message level) p = page_addLogEntry message (toLowerCase level) p"
| "processEvent ChatEvent p = p"
| "processEvent TeleportEvent p = p"
| "processEvent LoginEvent p =
     page_addLogEntry ''Login successful'' ''info'' (p\<lparr>loginStatus_text := ''Logged in''\<rparr>)"
| "processEvent LogoutEvent p =
     page_addLogEntry ''Logged out'' ''info'' (p\<lparr>loginStatus_text := ''Logged out''\<rparr>)"
| "processEvent OtherEvent p = p"

text \<open>
  \<^verbatim>\<open>pollEvents\<close> starts an interval timer. What happens afterwards is a sequence of
  events of the page's event loop: the timer firing (it does not fire once it is
  cleared), and the two kinds of response, or failure, arriving for requests issued
  earlier.
\<close>

datatype poll_event =
    Tick
  | StateResponse snapshot
  | StateFailed
  | EventsResponse "server_event list"
  | EventsFailed

definition pollEvents :: "page \<Rightarrow> page" where
  "pollEvents p = p\<lparr>pollInterval := True\<rparr>"

fun poll_step :: "(real \<Rightarrow> string) \<Rightarrow> poll_event \<Rightarrow> page \<Rightarrow> page" where
  "poll_step num Tick p =
     (if pollInterval p then p\<lparr>requests := requests p @ [GetState, GetEvents]\<rparr> else p)"
| "poll_step num (StateResponse data) p = on_state num data p"
| "poll_step num StateFailed p = p"
| "poll_step num (EventsResponse events) p = fold processEvent events p"
| "poll_step num EventsFailed p = p"

definition poll_run :: "(real \<Rightarrow> string) \<Rightarrow> poll_event list \<Rightarrow> page \<Rightarrow> page" where
  "poll_run num es p = fold (poll_step num) es p"

text \<open>The labels shown while a sequence of statuses is fed to \<open>updateStatus\<close>.\<close>

fun status_labels :: "string list \<Rightarrow> page \<Rightarrow> string list" where
  "status_labels [] p = []"
| "status_labels (status # rest) p =
     statusIndicator_text (updateStatus status p) # status_labels rest (updateStatus status p)"

text \<open>What the page displays of the region and of the avatar's place.\<close>

definition displayed :: "page \<Rightarrow> string \<times> string \<times> string \<times> string \<times> string \<times> string" where
  "displayed p = (regionName_text p, regionPosition_text p, avatar_left p, avatar_bottom p,
                  avatarMarker_left p, avatarMarker_top p)"

text \<open>A number printer for examples: the decimal digits of the integer part, which is
  what JavaScript prints for a non-negative whole number.\<close>

definition show_whole :: "real \<Rightarrow> string" where
  "show_whole x = digits 10 (nat \<lfloor>x\<rfloor>)"

text \<open>A state response that reports a terminal status is the only event that ends
  the polling.\<close>

definition observes_terminal :: "poll_event \<Rightarrow> bool" where
  "observes_terminal e =
     (case e of StateResponse d \<Rightarrow> terminal_status (s_status d) | _ \<Rightarrow> False)"

section \<open>Example inputs\<close>

definition example_form :: build_form where
  "example_form = \<lparr> f_type = ''sphere'', f_size = 2, f_color = ''#f44336'',
     f_transparency = 0, f_physical = True, f_phantom = False, f_temporary = False \<rparr>"

definition example_item :: inventory_item where
  "example_item = \<lparr> item_type = ''texture'', item_name = ''Bricks'' \<rparr>"

definition example_session :: "ui_op list" where
  "example_session =
     [CreateObjectFromUI example_form, LoadObjectFromInventory example_item 255,
      MouseDown [0], EditSelectedObject (example_form\<lparr>f_size := 3\<rparr>),
      DeleteSelectedObject]"

definition example_teleport :: teleport_data where
  "example_teleport = \<lparr> t_region = Some ''Plaza'', t_position = Some [128, 64, 50] \<rparr>"

definition completed_snapshot :: snapshot where
  "completed_snapshot = \<lparr> s_status = ''completed'', s_logged_in = False, s_user = None,
     s_current_region = None, s_position = None \<rparr>"

definition region_only_snapshot :: snapshot where
  "region_only_snapshot = \<lparr> s_status = ''in_world'', s_logged_in = False, s_user = None,
     s_current_region = Some ''Plaza'', s_position = None \<rparr>"

definition two_objects :: scene_manager where
  "two_objects =
     sceneManager (run_ops [CreateObjectFromUI example_form,
       LoadObjectFromInventory example_item 255] new_world)"

definition one_selected :: world where
  "one_selected = run_ops [CreateObjectFromUI example_form, MouseDown [0]] new_world"

section \<open>Invariants\<close>

text \<open>
  The selection invariant, relative to the emissive values \<open>orig\<close> the meshes had when
  nothing was selected: the selected mesh carries the highlight and has its own original
  value saved, every other mesh shows its original value.
\<close>

definition highlight_inv :: "(ref \<Rightarrow> nat) \<Rightarrow> scene_manager \<Rightarrow> bool" where
  "highlight_inv orig s =
     (\<forall>r. if selectedObject s = Some r
          then emissive_getHex s r = 0x333333 \<and> currentHex (heap s r) = Some (orig r)
          else emissive_getHex s r = orig r)"

text \<open>The invariant that a session maintains.\<close>

definition world_inv :: "world \<Rightarrow> bool" where
  "world_inv w \<longleftrightarrow>
     registry_matches_scene w \<and>
     (\<forall>r\<in>set (objects (sceneManager w)). r < next_ref (sceneManager w)) \<and>
     (\<forall>d\<in>set (om_objects w). od_id d < nextObjectId w) \<and>
     (\<forall>r. selectedObject (sceneManager w) = Some r \<longrightarrow> r \<in> set (objects (sceneManager w)))"

section \<open>Selection\<close>

lemma selectObject_selected: "selectedObject (selectObject r s) = Some r"
  by (simp add: selectObject_def Let_def emissive_setHex_def set_currentHex_def)

lemma selectObject_emissive_self:
  "emissive_getHex (selectObject r s) r = 0x333333"
  by (simp add: selectObject_def Let_def emissive_setHex_def set_currentHex_def
      emissive_getHex_def)

lemma selectObject_emissive_other:
  "r \<noteq> q \<Longrightarrow> selectedObject s \<noteq> Some q \<Longrightarrow>
   emissive_getHex (selectObject r s) q = emissive_getHex s q"
  by (cases "selectedObject s")
    (auto simp: selectObject_def Let_def emissive_setHex_def set_currentHex_def
      emissive_getHex_def restore_highlight_def)

lemma selectObject_emissive_prev:
  "r \<noteq> p \<Longrightarrow> selectedObject s = Some p \<Longrightarrow>
   emissive_getHex (selectObject r s) p = hex_or_undefined (currentHex (heap s p))"
  by (simp add: selectObject_def Let_def emissive_setHex_def set_currentHex_def
      emissive_getHex_def restore_highlight_def)

lemma selectObject_saved_fresh:
  "selectedObject s \<noteq> Some r \<Longrightarrow>
   currentHex (heap (selectObject r s) r) = Some (emissive_getHex s r)"
  by (cases "selectedObject s")
    (auto simp: selectObject_def Let_def emissive_setHex_def set_currentHex_def
      emissive_getHex_def restore_highlight_def)

lemma selectObject_saved_again:
  "selectedObject s = Some r \<Longrightarrow>
   currentHex (heap (selectObject r s) r) = Some (hex_or_undefined (currentHex (heap s r)))"
  by (simp add: selectObject_def Let_def emissive_setHex_def set_currentHex_def
      emissive_getHex_def restore_highlight_def)

lemma selectObject_dispatched:
  "dispatched (selectObject r s) = dispatched s @ [ObjectSelected r]"
  by (cases "selectedObject s")
    (auto simp: selectObject_def Let_def emissive_setHex_def set_currentHex_def
      restore_highlight_def)

lemma highlight_inv_start:
  "selectedObject s = None \<Longrightarrow> highlight_inv (emissive_getHex s) s"
  by (simp add: highlight_inv_def)

lemma highlight_inv_select:
  assumes "highlight_inv orig s"
  shows "highlight_inv orig (selectObject r s)"
  unfolding highlight_inv_def
proof (intro allI)
  fix q
  show "if selectedObject (selectObject r s) = Some q
        then emissive_getHex (selectObject r s) q = 0x333333 \<and>
             currentHex (heap (selectObject r s) q) = Some (orig q)
        else emissive_getHex (selectObject r s) q = orig q"
  proof (cases "q = r")
    case True
    have saved: "currentHex (heap (selectObject r s) r) = Some (orig r)"
    proof (cases "selectedObject s = Some r")
      case True
      with assms have "currentHex (heap s r) = Some (orig r)"
        by (auto simp: highlight_inv_def split: if_splits)
      with True show ?thesis
        by (simp add: selectObject_saved_again hex_or_undefined_def)
    next
      case False
      with assms have "emissive_getHex s r = orig r"
        by (auto simp: highlight_inv_def split: if_splits)
      with False show ?thesis
        by (simp add: selectObject_saved_fresh)
    qed
    with True show ?thesis
      by (simp add: selectObject_selected selectObject_emissive_self)
  next
    case False
    have "emissive_getHex (selectObject r s) q = orig q"
    proof (cases "selectedObject s = Some q")
      case True
      with assms have "currentHex (heap s q) = Some (orig q)"
        by (auto simp: highlight_inv_def split: if_splits)
      with True False show ?thesis
        by (simp add: selectObject_emissive_prev hex_or_undefined_def)
    next
      case no: False
      with assms have "emissive_getHex s q = orig q"
        by (auto simp: highlight_inv_def split: if_splits)
      with no False show ?thesis
        by (simp add: selectObject_emissive_other)
    qed
    with False show ?thesis
      by (simp add: selectObject_selected)
  qed
qed

lemma highlight_inv_deselect:
  assumes "highlight_inv orig s"
  shows "emissive_getHex (deselectObject s) q = orig q"
proof (cases "selectedObject s")
  case None
  with assms show ?thesis
    by (auto simp: highlight_inv_def deselectObject_def split: if_splits)
next
  case (Some p)
  with assms have p: "currentHex (heap s p) = Some (orig p)"
    by (auto simp: highlight_inv_def split: if_splits)
  show ?thesis
  proof (cases "q = p")
    case True
    with Some p show ?thesis
      by (simp add: deselectObject_def Let_def restore_highlight_def emissive_setHex_def
          emissive_getHex_def hex_or_undefined_def)
  next
    case False
    with Some assms have "emissive_getHex s q = orig q"
      by (auto simp: highlight_inv_def split: if_splits)
    with Some False show ?thesis
      by (simp add: deselectObject_def Let_def restore_highlight_def emissive_setHex_def
          emissive_getHex_def)
  qed
qed

lemma highlight_inv_fold:
  "highlight_inv orig s \<Longrightarrow> highlight_inv orig (fold selectObject rs s)"
  by (induction rs arbitrary: s) (simp_all add: highlight_inv_select)

lemma fold_selectObject_selected:
  "rs \<noteq> [] \<Longrightarrow> selectedObject (fold selectObject rs s) = Some (last rs)"
proof (induction rs arbitrary: s)
  case Nil
  then show ?case by simp
next
  case (Cons r rs)
  then show ?case
    by (cases "rs = []") (simp_all add: selectObject_selected)
qed


section \<open>Registry and scene stay in correspondence\<close>

lemma indexOf_first: "x \<notin> set xs \<Longrightarrow> indexOf (xs @ x # ys) x = Some (length xs)"
  by (induction xs) auto

lemma findIndex_first:
  "\<forall>y\<in>set xs. \<not> P y \<Longrightarrow> P x \<Longrightarrow> findIndex P (xs @ x # ys) = Some (length xs)"
  by (induction xs) auto

lemma splice1_middle: "splice1 (length xs) (xs @ x # ys) = xs @ ys"
  by (simp add: splice1_def)

lemma world_inv_new: "world_inv new_world"
  by (simp add: world_inv_def registry_matches_scene_def new_world_def new_scene_manager_def)

lemma list_all2_heap_other:
  assumes "list_all2 (\<lambda>r d. node_matches (h r) d) rs ds"
    and "\<And>r. r \<in> set rs \<Longrightarrow> node_matches (h' r) = node_matches (h r)"
  shows "list_all2 (\<lambda>r d. node_matches (h' r) d) rs ds"
  using assms(1)
  by (rule list.rel_mono_strong) (simp add: assms(2))

lemma world_inv_create:
  assumes inv: "world_inv w"
    and d: "od_id d = nextObjectId w"
    and w': "w' = (let w1 = w\<lparr>nextObjectId := nextObjectId w + 1\<rparr>;
                     (object, s) = createObject d (sceneManager w1);
                     w2 = w1\<lparr>sceneManager := s\<rparr>;
                     w3 = w2\<lparr>om_objects := om_objects w2 @ [d]\<rparr>
                 in addLogEntry msg lvl w3)"
  shows "world_inv w'"
proof -
  let ?s = "sceneManager w"
  let ?r = "next_ref ?s"
  from inv have m: "list_all2 (\<lambda>r d. node_matches (heap ?s r) d) (objects ?s) (om_objects w)"
    and dr: "distinct (objects ?s)" and di: "distinct (map od_id (om_objects w))"
    and ch: "scene_children ?s = objects ?s"
    and fr: "\<forall>r\<in>set (objects ?s). r < ?r"
    and fi: "\<forall>d\<in>set (om_objects w). od_id d < nextObjectId w"
    and sel: "\<forall>r. selectedObject ?s = Some r \<longrightarrow> r \<in> set (objects ?s)"
    by (auto simp: world_inv_def registry_matches_scene_def)
  from fr have notin: "?r \<notin> set (objects ?s)" by auto
  obtain s' where s': "createObject d ?s = (?r, s')"
    by (simp add: createObject_def Let_def)
  have objs: "objects s' = objects ?s @ [?r]"
    and chs: "scene_children s' = objects ?s @ [?r]"
    and nr: "next_ref s' = Suc ?r"
    and sl: "selectedObject s' = selectedObject ?s"
    using s' notin ch
    by (auto simp: createObject_def Let_def addObject_def scene_add_def remove1_idem)
  have hp_new: "node_matches (heap s' ?r) d"
    using s' by (auto simp: createObject_def Let_def addObject_def node_matches_def)
  have hp_old: "\<And>r. r \<noteq> ?r \<Longrightarrow> heap s' r = heap ?s r"
    using s' by (auto simp: createObject_def Let_def addObject_def)
  have w'_eq: "sceneManager w' = s'" "om_objects w' = om_objects w @ [d]"
    "nextObjectId w' = nextObjectId w + 1"
    using w' s' by (simp_all add: Let_def addLogEntry_def)
  have "list_all2 (\<lambda>r d. node_matches (heap s' r) d) (objects ?s) (om_objects w)"
    using m by (rule list_all2_heap_other) (metis notin hp_old)
  then have m': "list_all2 (\<lambda>r d. node_matches (heap s' r) d) (objects s') (om_objects w')"
    using hp_new by (simp add: objs w'_eq list_all2_appendI)
  have "distinct (map od_id (om_objects w'))"
    using di fi d by (auto simp: w'_eq)
  moreover have "distinct (objects s')" using dr notin by (simp add: objs)
  ultimately show ?thesis
    using m' fr fi sel d
    by (auto simp: world_inv_def registry_matches_scene_def w'_eq objs chs nr sl less_Suc_eq)
qed

lemma world_inv_createObjectFromUI: "world_inv w \<Longrightarrow> world_inv (createObjectFromUI f w)"
  by (rule world_inv_create[where d = "\<lparr> od_id = nextObjectId w, od_type = f_type f,
              od_position = (0, f_size f / 2, 0), od_rotation = (0, 0, 0),
              od_scale = (f_size f, f_size f, f_size f), od_color = f_color f,
              od_transparency = f_transparency f,
              od_isPhysical = f_physical f, od_isPhantom = f_phantom f,
              od_isTemporary = f_temporary f \<rparr>"])
    (simp_all add: createObjectFromUI_def Let_def)

lemma world_inv_loadObjectFromInventory:
  "world_inv w \<Longrightarrow> world_inv (loadObjectFromInventory item rnd w)"
  by (rule world_inv_create[where d = "\<lparr> od_id = nextObjectId w, od_type = getTypeFromItem item,
              od_position = (0, 1, 0), od_rotation = (0, 0, 0),
              od_scale = (1, 1, 1), od_color = ''#'' @ digits 16 rnd,
              od_transparency = 0,
              od_isPhysical = False, od_isPhantom = False, od_isTemporary = False \<rparr>"])
    (simp_all add: loadObjectFromInventory_def Let_def)


lemma matches_split:
  assumes m: "list_all2 (\<lambda>r d. node_matches (h r) d) rs ds"
    and dr: "distinct rs" and di: "distinct (map od_id ds)" and r: "r \<in> set rs"
  obtains xs ys xs' d ys' where "rs = xs @ r # ys" "ds = xs' @ d # ys'"
    "r \<notin> set xs" "r \<notin> set ys"
    "list_all2 (\<lambda>r d. node_matches (h r) d) xs xs'" "node_matches (h r) d"
    "list_all2 (\<lambda>r d. node_matches (h r) d) ys ys'"
    "\<forall>e\<in>set xs'. od_id e \<noteq> od_id d" "\<forall>e\<in>set ys'. od_id e \<noteq> od_id d"
proof -
  from r obtain xs ys where rs: "rs = xs @ r # ys"
    by (auto simp: in_set_conv_decomp)
  with dr have nx: "r \<notin> set xs" and ny: "r \<notin> set ys" by auto
  from m rs obtain xs' zs where ds: "ds = xs' @ zs"
    and mx: "list_all2 (\<lambda>r d. node_matches (h r) d) xs xs'"
    and mz: "list_all2 (\<lambda>r d. node_matches (h r) d) (r # ys) zs"
    by (auto simp: list_all2_append1)
  from mz obtain d ys' where zs: "zs = d # ys'" and md: "node_matches (h r) d"
    and my: "list_all2 (\<lambda>r d. node_matches (h r) d) ys ys'"
    by (auto simp: list_all2_Cons1)
  from di ds zs have "\<forall>e\<in>set xs'. od_id e \<noteq> od_id d" "\<forall>e\<in>set ys'. od_id e \<noteq> od_id d"
    by (auto simp: image_iff)
  with rs ds zs nx ny mx md my show thesis
    by (intro that[of xs ys xs' d ys']) simp_all
qed

lemma world_inv_delete:
  assumes inv: "world_inv w"
  shows "world_inv (deleteSelectedObject w)"
proof (cases "selectedObject (sceneManager w)")
  case None
  with inv show ?thesis by (simp add: deleteSelectedObject_def)
next
  case (Some r)
  let ?s = "sceneManager w"
  from inv have m: "list_all2 (\<lambda>r d. node_matches (heap ?s r) d) (objects ?s) (om_objects w)"
    and dr: "distinct (objects ?s)" and di: "distinct (map od_id (om_objects w))"
    and ch: "scene_children ?s = objects ?s"
    and fr: "\<forall>r\<in>set (objects ?s). r < next_ref ?s"
    and fi: "\<forall>d\<in>set (om_objects w). od_id d < nextObjectId w"
    by (auto simp: world_inv_def registry_matches_scene_def)
  from inv Some have rin: "r \<in> set (objects ?s)" by (simp add: world_inv_def)
  from m dr di rin obtain xs ys xs' d ys' where
    rs: "objects ?s = xs @ r # ys" and ds: "om_objects w = xs' @ d # ys'"
    and nx: "r \<notin> set xs" and ny: "r \<notin> set ys"
    and mx: "list_all2 (\<lambda>r d. node_matches (heap ?s r) d) xs xs'"
    and md: "node_matches (heap ?s r) d"
    and my: "list_all2 (\<lambda>r d. node_matches (heap ?s r) d) ys ys'"
    and ix: "\<forall>e\<in>set xs'. od_id e \<noteq> od_id d" and iy: "\<forall>e\<in>set ys'. od_id e \<noteq> od_id d"
    by (rule matches_split)
  have len: "length xs' = length xs" using mx by (simp add: list_all2_lengthD)
  have id: "ud_id (userData (heap ?s r)) = od_id d" using md by (simp add: node_matches_def)
  let ?s' = "removeObject r ?s"
  have s'_objs: "objects ?s' = xs @ ys" and s'_ch: "scene_children ?s' = xs @ ys"
    and s'_sel: "selectedObject ?s' = None" and s'_heap: "heap ?s' = heap ?s"
    and s'_nr: "next_ref ?s' = next_ref ?s"
    using Some rs ch nx
    by (simp_all add: removeObject_def Let_def indexOf_first splice1_middle scene_remove_def)
  have fidx: "findIndex (\<lambda>e. od_id e = od_id d) (xs' @ d # ys') = Some (length xs')"
    using ix by (intro findIndex_first) auto
  have w'_s: "sceneManager (deleteSelectedObject w) = ?s'"
    and w'_ds: "om_objects (deleteSelectedObject w) = xs' @ ys'"
    and w'_n: "nextObjectId (deleteSelectedObject w) = nextObjectId w"
    using Some id ds fidx
    by (simp_all add: deleteSelectedObject_def Let_def addLogEntry_def splice1_middle)
  have "list_all2 (\<lambda>r d. node_matches (heap ?s r) d) (xs @ ys) (xs' @ ys')"
    using mx my by (rule list_all2_appendI)
  moreover have "distinct (xs @ ys)" using dr rs by auto
  moreover have "distinct (map od_id (xs' @ ys'))" using di ds by auto
  ultimately show ?thesis
    using fr fi rs ds
    by (auto simp: world_inv_def registry_matches_scene_def w'_s w'_ds w'_n s'_objs s'_ch
        s'_sel s'_heap s'_nr)
qed

lemma world_inv_edit:
  assumes inv: "world_inv w"
  shows "world_inv (editSelectedObject f w)"
proof (cases "selectedObject (sceneManager w)")
  case None
  with inv show ?thesis by (simp add: editSelectedObject_def)
next
  case (Some r)
  let ?s = "sceneManager w"
  from inv have m: "list_all2 (\<lambda>r d. node_matches (heap ?s r) d) (objects ?s) (om_objects w)"
    and dr: "distinct (objects ?s)" and di: "distinct (map od_id (om_objects w))"
    and ch: "scene_children ?s = objects ?s"
    and fr: "\<forall>r\<in>set (objects ?s). r < next_ref ?s"
    and fi: "\<forall>d\<in>set (om_objects w). od_id d < nextObjectId w"
    by (auto simp: world_inv_def registry_matches_scene_def)
  from inv Some have rin: "r \<in> set (objects ?s)" by (simp add: world_inv_def)
  from m dr di rin obtain xs ys xs' d ys' where
    rs: "objects ?s = xs @ r # ys" and ds: "om_objects w = xs' @ d # ys'"
    and nx: "r \<notin> set xs" and ny: "r \<notin> set ys"
    and mx: "list_all2 (\<lambda>r d. node_matches (heap ?s r) d) xs xs'"
    and md: "node_matches (heap ?s r) d"
    and my: "list_all2 (\<lambda>r d. node_matches (heap ?s r) d) ys ys'"
    and ix: "\<forall>e\<in>set xs'. od_id e \<noteq> od_id d" and iy: "\<forall>e\<in>set ys'. od_id e \<noteq> od_id d"
    by (rule matches_split)
  have id: "ud_id (userData (heap ?s r)) = od_id d" using md by (simp add: node_matches_def)
  have fidx: "findIndex (\<lambda>e. od_id e = od_id d) (xs' @ d # ys') = Some (length xs')"
    using ix by (intro findIndex_first) auto
  let ?h = "(heap ?s)(r := edit_mesh f (heap ?s r))"
  let ?w = "editSelectedObject f w"
  have w'_h: "heap (sceneManager ?w) = ?h"
    and w'_objs: "objects (sceneManager ?w) = xs @ r # ys"
    and w'_ch: "scene_children (sceneManager ?w) = xs @ r # ys"
    and w'_sel: "selectedObject (sceneManager ?w) = Some r"
    and w'_nr: "next_ref (sceneManager ?w) = next_ref ?s"
    and w'_ds: "om_objects ?w = xs' @ edit_data f d # ys'"
    and w'_n: "nextObjectId ?w = nextObjectId w"
    using Some id ds fidx rs ch
    by (simp_all add: editSelectedObject_def Let_def addLogEntry_def)
  have mx': "list_all2 (\<lambda>r d. node_matches (?h r) d) xs xs'"
    using mx by (rule list_all2_heap_other) (use nx in auto)
  have my': "list_all2 (\<lambda>r d. node_matches (?h r) d) ys ys'"
    using my by (rule list_all2_heap_other) (use ny in auto)
  have md': "node_matches (?h r) (edit_data f d)"
    using md by (simp add: node_matches_def edit_mesh_def edit_data_def)
  have "list_all2 (\<lambda>r d. node_matches (?h r) d) (xs @ r # ys) (xs' @ edit_data f d # ys')"
    using mx' md' my' by (intro list_all2_appendI) simp_all
  moreover have "map od_id (xs' @ edit_data f d # ys') = map od_id (om_objects w)"
    by (simp add: ds edit_data_def)
  moreover have "od_id (edit_data f d) = od_id d" by (simp add: edit_data_def)
  ultimately show ?thesis
    using fr fi rs ds dr di
    by (auto simp: world_inv_def registry_matches_scene_def w'_h w'_objs w'_ch w'_sel
        w'_nr w'_ds w'_n simp del: map_append)
qed

lemma node_matches_emissive [simp]:
  "node_matches (m\<lparr>mesh_material := (mesh_material m)\<lparr>m_emissive := h\<rparr>\<rparr>) d = node_matches m d"
  by (simp add: node_matches_def)

lemma node_matches_currentHex [simp]:
  "node_matches (m\<lparr>currentHex := c\<rparr>) d = node_matches m d"
  by (simp add: node_matches_def)

lemma node_matches_selectObject [simp]:
  "node_matches (heap (selectObject r s) q) d = node_matches (heap s q) d"
  by (cases "selectedObject s")
    (auto simp: node_matches_def selectObject_def Let_def emissive_setHex_def
      set_currentHex_def restore_highlight_def)

lemma node_matches_deselectObject [simp]:
  "node_matches (heap (deselectObject s) q) d = node_matches (heap s q) d"
  by (cases "selectedObject s")
    (auto simp: node_matches_def deselectObject_def Let_def emissive_setHex_def
      restore_highlight_def)

lemma selectObject_frame:
  "objects (selectObject r s) = objects s" "scene_children (selectObject r s) = scene_children s"
  "next_ref (selectObject r s) = next_ref s"
  by (cases "selectedObject s";
      simp add: selectObject_def Let_def emissive_setHex_def set_currentHex_def
      restore_highlight_def)+

lemma deselectObject_frame:
  "objects (deselectObject s) = objects s" "scene_children (deselectObject s) = scene_children s"
  "next_ref (deselectObject s) = next_ref s" "selectedObject (deselectObject s) = None"
  by (cases "selectedObject s";
      simp add: deselectObject_def Let_def emissive_setHex_def restore_highlight_def)+

lemma intersectObjects_subset: "set (intersectObjects hits objs) \<subseteq> set objs"
  by (auto simp: intersectObjects_def)

lemma world_inv_mouse:
  assumes inv: "world_inv w"
  shows "world_inv (w\<lparr>sceneManager := onMouseDown hits (sceneManager w)\<rparr>)"
proof (cases "intersectObjects hits (objects (sceneManager w))")
  case Nil
  with inv show ?thesis
    by (simp add: world_inv_def registry_matches_scene_def onMouseDown_def deselectObject_frame)
next
  case (Cons r rest)
  with intersectObjects_subset[of hits "objects (sceneManager w)"]
  have "r \<in> set (objects (sceneManager w))" by auto
  with inv Cons show ?thesis
    by (simp add: world_inv_def registry_matches_scene_def onMouseDown_def selectObject_frame
        selectObject_selected)
qed

lemma world_inv_apply_op: "world_inv w \<Longrightarrow> world_inv (apply_op op w)"
  by (cases op)
    (simp_all add: world_inv_createObjectFromUI world_inv_loadObjectFromInventory
      world_inv_edit world_inv_delete world_inv_mouse)

lemma world_inv_run_ops: "world_inv w \<Longrightarrow> world_inv (run_ops ops w)"
  unfolding run_ops_def
  by (induction ops arbitrary: w) (simp_all add: world_inv_apply_op)


text \<open>
  C2. At most one node is selected (the selection is the single field
  \<open>selectedObject\<close>), and selecting \<open>b\<close> while \<open>a\<close> is selected puts \<open>a\<close>'s emissive colour
  back to exactly the value it had before \<open>a\<close> was selected; after that \<open>b\<close> is the selected
  node, it carries the highlight colour, the emissive value it had just before is saved,
  and the two selection events were dispatched in that order.
\<close>

theorem select_other_restores_previous:
  assumes "a \<noteq> b" and "selectedObject s \<noteq> Some a"
  shows "selectedObject (selectObject a s) = Some a \<and>
         emissive_getHex (selectObject a s) a = 0x333333 \<and>
         emissive_getHex (selectObject b (selectObject a s)) a = emissive_getHex s a \<and>
         selectedObject (selectObject b (selectObject a s)) = Some b \<and>
         emissive_getHex (selectObject b (selectObject a s)) b = 0x333333 \<and>
         currentHex (heap (selectObject b (selectObject a s)) b) =
           Some (emissive_getHex (selectObject a s) b) \<and>
         dispatched (selectObject b (selectObject a s)) =
           dispatched s @ [ObjectSelected a, ObjectSelected b]"
proof -
  let ?s1 = "selectObject a s"
  have sel1: "selectedObject ?s1 = Some a" by (rule selectObject_selected)
  have saved: "currentHex (heap ?s1 a) = Some (emissive_getHex s a)"
    using assms(2) by (rule selectObject_saved_fresh)
  have "emissive_getHex (selectObject b ?s1) a = hex_or_undefined (currentHex (heap ?s1 a))"
    using assms(1) sel1 by (simp add: selectObject_emissive_prev)
  then have restored: "emissive_getHex (selectObject b ?s1) a = emissive_getHex s a"
    by (simp add: saved hex_or_undefined_def)
  have "currentHex (heap (selectObject b ?s1) b) = Some (emissive_getHex ?s1 b)"
    using assms(1) sel1 by (simp add: selectObject_saved_fresh)
  with restored sel1 show ?thesis
    by (simp add: selectObject_selected selectObject_emissive_self selectObject_dispatched)
qed


lemma two_objects_eval:
  "selectedObject two_objects = None" "objects two_objects = [0, 1]"
  "emissive_getHex two_objects 0 = 0" "emissive_getHex two_objects 1 = 0"
  by (simp_all add: two_objects_def run_ops_def createObjectFromUI_def
      loadObjectFromInventory_def createObject_def addObject_def Let_def new_world_def
      new_scene_manager_def scene_add_def addLogEntry_def emissive_getHex_def)

theorem select_other_restores_previous_witness:
  "(0::nat) \<noteq> 1 \<and> selectedObject two_objects \<noteq> Some 0 \<and>
   emissive_getHex (selectObject 0 two_objects) 0 = 0x333333 \<and>
   emissive_getHex (selectObject 1 (selectObject 0 two_objects)) 0 = 0 \<and>
   selectedObject (selectObject 1 (selectObject 0 two_objects)) = Some 1 \<and>
   emissive_getHex (selectObject 1 (selectObject 0 two_objects)) 1 = 0x333333"
proof -
  have h1: "(0::nat) \<noteq> 1" by simp
  have h2: "selectedObject two_objects \<noteq> Some 0"
    by (simp add: two_objects_eval)
  show ?thesis
    using select_other_restores_previous[OF h1 h2] h2 by (simp add: two_objects_eval)
qed

text \<open>
  C10. Through every sequence of \<open>selectObject\<close> calls, repeated calls on the selected node
  included, the value saved for the selected node is the emissive value the node had
  before any selection (the highlight is taken off before the value is sampled again),
  and a deselection afterwards gives every node its original emissive value back.
\<close>

theorem reselect_keeps_saved_emissive:
  assumes "selectedObject s = None" and "rs \<noteq> []"
  shows "selectedObject (fold selectObject rs s) = Some (last rs) \<and>
         currentHex (heap (fold selectObject rs s) (last rs)) =
           Some (emissive_getHex s (last rs)) \<and>
         (\<forall>q. emissive_getHex (deselectObject (fold selectObject rs s)) q =
              emissive_getHex s q)"
proof -
  let ?t = "fold selectObject rs s"
  have inv: "highlight_inv (emissive_getHex s) ?t"
    using assms(1) by (intro highlight_inv_fold highlight_inv_start)
  have sel: "selectedObject ?t = Some (last rs)"
    using assms(2) by (rule fold_selectObject_selected)
  from inv sel have "currentHex (heap ?t (last rs)) = Some (emissive_getHex s (last rs))"
    by (auto simp: highlight_inv_def split: if_splits)
  with sel inv show ?thesis
    by (simp add: highlight_inv_deselect)
qed

theorem reselect_keeps_saved_emissive_witness:
  "selectedObject two_objects = None \<and> [0, 0, 1, 1, 1::nat] \<noteq> [] \<and>
   selectedObject (fold selectObject [0, 0, 1, 1, 1] two_objects) = Some 1 \<and>
   currentHex (heap (fold selectObject [0, 0, 1, 1, 1] two_objects) 1) = Some 0 \<and>
   emissive_getHex (deselectObject (fold selectObject [0, 0, 1, 1, 1] two_objects)) 0 = 0 \<and>
   emissive_getHex (deselectObject (fold selectObject [0, 0, 1, 1, 1] two_objects)) 1 = 0"
proof -
  have h1: "selectedObject two_objects = None" by (simp add: two_objects_eval)
  have h2: "[0, 0, 1, 1, 1::nat] \<noteq> []" by simp
  have e: "emissive_getHex two_objects (Suc 0) = 0"
    using two_objects_eval(4) by simp
  show ?thesis
    using reselect_keeps_saved_emissive[OF h1 h2] h1 e by (simp add: two_objects_eval)
qed

text \<open>
  C3. Removing the selected node is expected to run the deselection first. Evaluated
  after one object was created and clicked, \<open>deleteSelectedObject\<close>, through
  \<open>removeObject\<close>, unregisters the node, clears the selection and disables the two
  buttons, but the node keeps the highlight colour and no \<open>objectDeselected\<close> event is
  dispatched; \<open>deselectObject\<close> on the same scene restores the colour and dispatches the
  event.
\<close>

theorem removeObject_selected_skips_deselection:
  "selectedObject (sceneManager one_selected) = Some 0 \<and>
   objects (sceneManager one_selected) = [0] \<and>
   emissive_getHex (sceneManager one_selected) 0 = 0x333333 \<and>
   currentHex (heap (sceneManager one_selected) 0) = Some 0 \<and>
   sceneManager (deleteSelectedObject one_selected) =
     removeObject 0 (sceneManager one_selected) \<and>
   selectedObject (removeObject 0 (sceneManager one_selected)) = None \<and>
   objects (removeObject 0 (sceneManager one_selected)) = [] \<and>
   edit_disabled (removeObject 0 (sceneManager one_selected)) \<and>
   delete_disabled (removeObject 0 (sceneManager one_selected)) \<and>
   dispatched (removeObject 0 (sceneManager one_selected)) = [ObjectSelected 0] \<and>
   emissive_getHex (removeObject 0 (sceneManager one_selected)) 0 = 0x333333 \<and>
   dispatched (deselectObject (sceneManager one_selected)) =
     [ObjectSelected 0, ObjectDeselected] \<and>
   emissive_getHex (deselectObject (sceneManager one_selected)) 0 = 0"
  by (simp add: one_selected_def run_ops_def createObjectFromUI_def createObject_def
      deleteSelectedObject_def onMouseDown_def intersectObjects_def
      removeObject_def deselectObject_def selectObject_def addObject_def addLogEntry_def
      new_world_def new_scene_manager_def scene_add_def scene_remove_def splice1_def Let_def
      emissive_getHex_def emissive_setHex_def set_currentHex_def restore_highlight_def
      hex_or_undefined_def example_form_def)

text \<open>
  C1. Through every sequence of registry operations (creation from the build panel,
  creation from an inventory item, edit and deletion of the selected object) and mouse
  selections, starting from the freshly constructed managers, the registry's records
  and the scene's pickable nodes pair off in order: each pair has the same id and the
  same transform, colour, transparency and flags, no id and no node occurs twice, and
  the scene's children are exactly the pickable nodes.
\<close>

theorem registry_scene_correspondence:
  "registry_matches_scene (run_ops ops new_world)"
  using world_inv_run_ops[OF world_inv_new, of ops] by (simp add: world_inv_def)


theorem registry_scene_correspondence_witness:
  "registry_matches_scene (run_ops example_session new_world) \<and>
   map od_id (om_objects (run_ops example_session new_world)) = [2] \<and>
   objects (sceneManager (run_ops example_session new_world)) = [1]"
proof -
  have "map od_id (om_objects (run_ops example_session new_world)) = [2] \<and>
        objects (sceneManager (run_ops example_session new_world)) = [1]"
    by (simp add: run_ops_def createObjectFromUI_def loadObjectFromInventory_def
        editSelectedObject_def deleteSelectedObject_def onMouseDown_def intersectObjects_def
        createObject_def addObject_def removeObject_def selectObject_def Let_def
        new_world_def new_scene_manager_def scene_add_def scene_remove_def splice1_def
        emissive_getHex_def emissive_setHex_def set_currentHex_def restore_highlight_def
        addLogEntry_def example_form_def example_item_def getTypeFromItem_def
        edit_mesh_def edit_data_def example_session_def)
  with registry_scene_correspondence[of example_session] show ?thesis by simp
qed

section \<open>Status labels\<close>

text \<open>
  C5. Feeding the statuses idle, starting, logging_in, logged_in, in_world, logging_out,
  completed to \<open>updateStatus\<close> in that order, from any page, shows the labels Idle,
  Starting..., Logging in..., Logged in, In World, Logging out..., Completed in that
  order. The ellipsis of the labels is the three full stops that the source writes.
\<close>

theorem status_sequence_labels:
  "status_labels [''idle'', ''starting'', ''logging_in'', ''logged_in'', ''in_world'',
                  ''logging_out'', ''completed''] p =
   [''Idle'', ''Starting...'', ''Logging in...'', ''Logged in'', ''In World'',
    ''Logging out...'', ''Completed'']"
  by (simp add: updateStatus_def Let_def ascii_whitespace_def)

section \<open>Teleport events\<close>

lemma teleport_displayed_idempotent_any:
  "displayed (on_teleport num data (on_teleport num data p)) = displayed (on_teleport num data p)"
  by (simp add: on_teleport_def Let_def updateRegionInfo_def page_addLogEntry_def displayed_def
      split: option.splits list.splits)

text \<open>
  C6. Applying a teleport event with a 3-component position a second time leaves the
  page as it was after the first application, except that the same log line is
  appended once more: the region name, the position text, the avatar's screen position
  and the minimap marker are the same after the second application as after the first,
  and the handler raises nothing.
\<close>

theorem teleport_idempotent:
  assumes "t_position data = Some [x, y, z]"
  shows "on_teleport num data (on_teleport num data p) =
           (on_teleport num data p)\<lparr>systemLog := systemLog (on_teleport num data p) @
              [(''Teleported to ''
                  @ (case t_region data of None \<Rightarrow> ''undefined'' | Some r \<Rightarrow> r)
                  @ '' at position '' @ num x @ '', '' @ num y @ '', '' @ num z,
                ''info'')]\<rparr> \<and>
         displayed (on_teleport num data (on_teleport num data p)) =
           displayed (on_teleport num data p) \<and>
         uncaught (on_teleport num data p) = uncaught p"
  using assms
  by (simp add: on_teleport_def Let_def updateRegionInfo_def page_addLogEntry_def displayed_def)

theorem teleport_idempotent_witness:
  "t_position example_teleport = Some [128, 64, 50] \<and>
   displayed (on_teleport show_whole example_teleport blank_page) =
     (''Plaza'', ''Position: 128, 64, 50'', ''50%'', ''45%'', ''50%'', ''75%'') \<and>
   displayed (on_teleport show_whole example_teleport
       (on_teleport show_whole example_teleport blank_page)) =
     (''Plaza'', ''Position: 128, 64, 50'', ''50%'', ''45%'', ''50%'', ''75%'')"
proof -
  have h: "t_position example_teleport = Some [128, 64, 50]"
    by (simp add: example_teleport_def)
  have d: "displayed (on_teleport show_whole example_teleport blank_page) =
      (''Plaza'', ''Position: 128, 64, 50'', ''50%'', ''45%'', ''50%'', ''75%'')"
    by (simp add: on_teleport_def updateRegionInfo_def Let_def displayed_def
        page_addLogEntry_def elem_def calc_def show_num_def show_whole_def digit_char_def
        string_or_def blank_page_def example_teleport_def)
  from teleport_idempotent[OF h, of show_whole blank_page, THEN conjunct2, THEN conjunct1] h d
  show ?thesis by simp
qed

section \<open>Polling\<close>

lemma on_state_pollInterval:
  "pollInterval (on_state num d p) \<longleftrightarrow> pollInterval p \<and> \<not> terminal_status (s_status d)"
  by (auto simp: on_state_def Let_def terminal_status_def updateRegionInfo_def
      split: option.splits list.splits bool.splits)

lemma on_state_requests: "requests (on_state num d p) = requests p"
  by (auto simp: on_state_def Let_def updateRegionInfo_def
      split: option.splits list.splits bool.splits)

lemma processEvent_frame:
  "pollInterval (processEvent e p) = pollInterval p" "requests (processEvent e p) = requests p"
  by (cases e; simp add: page_addLogEntry_def)+

lemma fold_processEvent_frame:
  "pollInterval (fold processEvent es p) = pollInterval p"
  "requests (fold processEvent es p) = requests p"
  by (induction es arbitrary: p) (simp_all add: processEvent_frame)

lemma poll_step_pollInterval:
  "pollInterval (poll_step num e p) \<longleftrightarrow> pollInterval p \<and> \<not> observes_terminal e"
  by (cases e) (simp_all add: on_state_pollInterval fold_processEvent_frame observes_terminal_def)

lemma poll_run_pollInterval:
  "pollInterval (poll_run num es p) \<longleftrightarrow> pollInterval p \<and> \<not> list_ex observes_terminal es"
  unfolding poll_run_def
  by (induction es arbitrary: p) (auto simp: poll_step_pollInterval)

lemma poll_step_stopped:
  "\<not> pollInterval p \<Longrightarrow> requests (poll_step num e p) = requests p"
  by (cases e) (simp_all add: on_state_requests fold_processEvent_frame)

lemma poll_run_stopped:
  "\<not> pollInterval p \<Longrightarrow> requests (poll_run num es p) = requests p"
  unfolding poll_run_def
  by (induction es arbitrary: p) (simp_all add: poll_step_stopped poll_step_pollInterval)

lemma poll_run_append: "poll_run num (xs @ ys) p = poll_run num ys (poll_run num xs p)"
  by (simp add: poll_run_def)

text \<open>
  C7. After \<open>pollEvents\<close> has started the timer, the timer is still running after a
  sequence of events exactly when no state response with status completed or error was
  among them. When a state response reports a terminal status the timer is stopped,
  and whatever happens afterwards issues no further request: the requests issued are
  those issued before that response arrived. While the timer runs, each firing issues
  one state request and one events request.
\<close>

theorem polling_stops_on_terminal_only:
  "(pollInterval (poll_run num es (pollEvents p)) \<longleftrightarrow> \<not> list_ex observes_terminal es) \<and>
   (terminal_status (s_status d) \<longrightarrow>
      \<not> pollInterval (poll_run num (pre @ [StateResponse d]) (pollEvents p)) \<and>
      requests (poll_run num (pre @ [StateResponse d] @ post) (pollEvents p)) =
        requests (poll_run num pre (pollEvents p))) \<and>
   (pollInterval (poll_run num es (pollEvents p)) \<longrightarrow>
      requests (poll_step num Tick (poll_run num es (pollEvents p))) =
        requests (poll_run num es (pollEvents p)) @ [GetState, GetEvents])"
proof (intro conjI impI)
  show "pollInterval (poll_run num es (pollEvents p)) \<longleftrightarrow> \<not> list_ex observes_terminal es"
    by (simp add: poll_run_pollInterval pollEvents_def)
next
  assume t: "terminal_status (s_status d)"
  let ?q = "poll_run num (pre @ [StateResponse d]) (pollEvents p)"
  show stopped: "\<not> pollInterval ?q"
    using t by (simp add: poll_run_pollInterval observes_terminal_def)
  have "poll_run num (pre @ [StateResponse d] @ post) (pollEvents p) = poll_run num post ?q"
    by (simp add: poll_run_def)
  then have "requests (poll_run num (pre @ [StateResponse d] @ post) (pollEvents p)) =
      requests ?q"
    using poll_run_stopped[OF stopped, of num post] by simp
  also have "\<dots> = requests (poll_run num pre (pollEvents p))"
    by (simp add: poll_run_append poll_run_def on_state_requests)
  finally show "requests (poll_run num (pre @ [StateResponse d] @ post) (pollEvents p)) =
        requests (poll_run num pre (pollEvents p))" .
next
  assume "pollInterval (poll_run num es (pollEvents p))"
  then show "requests (poll_step num Tick (poll_run num es (pollEvents p))) =
        requests (poll_run num es (pollEvents p)) @ [GetState, GetEvents]"
    by simp
qed

theorem polling_stops_on_terminal_only_witness:
  "terminal_status (s_status completed_snapshot) \<and>
   requests (poll_run show_whole ([Tick] @ [StateResponse completed_snapshot] @ [Tick, Tick])
     (pollEvents blank_page)) = [GetState, GetEvents] \<and>
   pollInterval (poll_run show_whole [Tick, EventsResponse [LoginEvent]]
     (pollEvents blank_page)) \<and>
   requests (poll_step show_whole Tick
     (poll_run show_whole [Tick, EventsResponse [LoginEvent]] (pollEvents blank_page))) =
     [GetState, GetEvents, GetState, GetEvents]"
proof -
  have t: "terminal_status (s_status completed_snapshot)"
    by (simp add: terminal_status_def completed_snapshot_def)
  have a: "pollInterval (poll_run show_whole [Tick, EventsResponse [LoginEvent]]
      (pollEvents blank_page))"
    by (simp add: poll_run_def pollEvents_def blank_page_def page_addLogEntry_def)
  have r1: "requests (poll_run show_whole [Tick] (pollEvents blank_page)) =
      [GetState, GetEvents]"
    by (simp add: poll_run_def pollEvents_def blank_page_def)
  have r2: "requests (poll_run show_whole [Tick, EventsResponse [LoginEvent]]
      (pollEvents blank_page)) = [GetState, GetEvents]"
    by (simp add: poll_run_def pollEvents_def blank_page_def page_addLogEntry_def)
  from polling_stops_on_terminal_only[of show_whole "[Tick, EventsResponse [LoginEvent]]"
      blank_page completed_snapshot "[Tick]" "[Tick, Tick]"] t a r1 r2
  show ?thesis by simp
qed

section \<open>Snapshots without a position\<close>

text \<open>
  C9, as claimed: a snapshot with a region name and no 3-component position leaves the
  displayed position as it was. It does not: after a teleport to 128, 128, 25 the page
  shows that position, and the snapshot that follows puts the default text in its place.
\<close>

theorem snapshot_without_position_counterexample:
  "regionPosition_text (on_teleport show_whole
       \<lparr> t_region = Some ''Plaza'', t_position = Some [128, 128, 25] \<rparr> blank_page) =
     ''Position: 128, 128, 25'' \<and>
   regionPosition_text (on_state show_whole region_only_snapshot
     (on_teleport show_whole
       \<lparr> t_region = Some ''Plaza'', t_position = Some [128, 128, 25] \<rparr> blank_page)) =
     ''Position: 0, 0, 0'' \<and>
   regionPosition_text (on_state show_whole region_only_snapshot
     (on_teleport show_whole
       \<lparr> t_region = Some ''Plaza'', t_position = Some [128, 128, 25] \<rparr> blank_page)) \<noteq>
   regionPosition_text (on_teleport show_whole
       \<lparr> t_region = Some ''Plaza'', t_position = Some [128, 128, 25] \<rparr> blank_page)"
  by (simp add: on_state_def on_teleport_def updateRegionInfo_def Let_def
      region_only_snapshot_def truthy_string_def page_addLogEntry_def show_whole_def
      digit_char_def)

text \<open>
  C9, amended: a snapshot with a region name and no 3-component position (none at all,
  or an array of another length) shows the region name and resets the displayed
  position to the default text \<^verbatim>\<open>Position: 0, 0, 0\<close>, and the handler raises nothing.
\<close>

theorem snapshot_without_position_resets:
  assumes "truthy_string (s_current_region d)"
    and "\<forall>pos. s_position d = Some pos \<longrightarrow> length pos \<noteq> 3"
  shows "regionPosition_text (on_state num d p) = ''Position: 0, 0, 0'' \<and>
         regionName_text (on_state num d p) =
           string_or (s_current_region d) ''Not connected'' \<and>
         uncaught (on_state num d p) = uncaught p"
  using assms
  by (auto simp: on_state_def updateRegionInfo_def Let_def
      split: option.splits list.splits bool.splits)

theorem snapshot_without_position_resets_witness:
  "truthy_string (s_current_region region_only_snapshot) \<and>
   s_position region_only_snapshot = None \<and>
   regionPosition_text (on_state show_whole region_only_snapshot
     (blank_page\<lparr>regionPosition_text := ''Position: 128, 128, 25''\<rparr>)) = ''Position: 0, 0, 0'' \<and>
   regionName_text (on_state show_whole region_only_snapshot
     (blank_page\<lparr>regionPosition_text := ''Position: 128, 128, 25''\<rparr>)) = ''Plaza''"
proof -
  have h1: "truthy_string (s_current_region region_only_snapshot)"
    by (simp add: truthy_string_def region_only_snapshot_def)
  have h2: "\<forall>pos. s_position region_only_snapshot = Some pos \<longrightarrow> length pos \<noteq> 3"
    by (simp add: region_only_snapshot_def)
  have s: "string_or (s_current_region region_only_snapshot) ''Not connected'' = ''Plaza''"
    by (simp add: string_or_def region_only_snapshot_def)
  from snapshot_without_position_resets[OF h1 h2, of show_whole
      "blank_page\<lparr>regionPosition_text := ''Position: 128, 128, 25''\<rparr>"] h1 s
  show ?thesis by (simp add: region_only_snapshot_def)
qed

section \<open>Avatar fallbacks\<close>

lemma unknown_bodyShape_is_athletic:
  "bodyShape a \<notin> {''athletic'', ''slim'', ''heavy''} \<Longrightarrow>
   createAvatar a = createAvatar (a\<lparr>bodyShape := ''athletic''\<rparr>)"
  by (simp add: createAvatar_def createHead_def createTorso_def createArms_def createLegs_def
      Let_def)

lemma unknown_outfitStyle_is_casual:
  "outfitStyle a \<notin> {''casual'', ''formal'', ''fantasy''} \<Longrightarrow>
   createAvatar a = createAvatar (a\<lparr>outfitStyle := ''casual''\<rparr>)"
  by (simp add: createAvatar_def createHead_def createTorso_def createArms_def createLegs_def
      Let_def)

lemma unknown_hairStyle_geometry_material:
  "hairStyle a \<notin> {''short'', ''ponytail'', ''long''} \<Longrightarrow>
   map part_geometry (createAvatar a) =
     map part_geometry (createAvatar (a\<lparr>hairStyle := ''short''\<rparr>)) \<and>
   map part_material (createAvatar a) =
     map part_material (createAvatar (a\<lparr>hairStyle := ''short''\<rparr>))"
  by (simp add: createAvatar_def createHead_def createTorso_def createArms_def createLegs_def
      Let_def new_part_def)

text \<open>
  C8. An unrecognized enum value is expected to give the avatar of the default option.
  For the body shape and the outfit style it does (the two lemmas above). For the hair
  style it does not: with the style \<^verbatim>\<open>mohawk\<close> the hair has the geometry and the material of
  short hair, but it is left at the origin without rotation, whereas short hair is
  lifted onto the head and turned over.
\<close>

theorem unknown_hairStyle_misplaces_hair:
  "createAvatar (new_avatar_manager\<lparr>hairStyle := ''mohawk''\<rparr>) \<noteq>
     createAvatar (new_avatar_manager\<lparr>hairStyle := ''short''\<rparr>) \<and>
   part_geometry (createAvatar (new_avatar_manager\<lparr>hairStyle := ''mohawk''\<rparr>) ! 1) =
     part_geometry (createAvatar (new_avatar_manager\<lparr>hairStyle := ''short''\<rparr>) ! 1) \<and>
   part_position (createAvatar (new_avatar_manager\<lparr>hairStyle := ''mohawk''\<rparr>) ! 1) =
     (0, 0, 0) \<and>
   part_rotation (createAvatar (new_avatar_manager\<lparr>hairStyle := ''mohawk''\<rparr>) ! 1) =
     (0, 0, 0) \<and>
   part_position (createAvatar (new_avatar_manager\<lparr>hairStyle := ''short''\<rparr>) ! 1) =
     (0, 1.63, 0) \<and>
   part_rotation (createAvatar (new_avatar_manager\<lparr>hairStyle := ''short''\<rparr>) ! 1) =
     (pi, 0, 0)"
  by (simp add: createAvatar_def createHead_def Let_def new_avatar_manager_def new_part_def
      set_x_def set_y_def set_z_def)

end
